theory Spec2Isabelle
  imports Complex_Main "HOL-Library.AList"
begin

section \<open>Tournament network analysis (app.py)\<close>

text \<open>
  The application loads two GraphML files with NetworkX, computes centralities of the
  full graph, and shows structural metrics, top-K rankings and an interactive network.
  Python floats are modelled as exact reals (rounding and NaN are abstracted away), and
  Python exceptions as values of \<open>error\<close>.
\<close>

subsection \<open>Graphs as NetworkX holds them\<close>

type_synonym node = string

datatype error =
    FileNotFoundError
  | NetworkXPointlessConcept
  | AmbiguousSolution
  | TypeError
  | NetworkXError
  | NumericalError
  | ValueError
  | KeyError
  | ZeroDivisionError
  | SaveError

text \<open>
  The directed graph returned by \<open>nx.read_graphml\<close>: the nodes in insertion order, each
  with its optional integer attribute \<open>community\<close>, and the directed edges
  \<open>(source, target, weight)\<close> in the order \<open>G.edges()\<close> yields them. Parallel edges of
  a multigraph are repeated entries.
\<close>

record dgraph =
  nodes :: "(node \<times> int option) list"
  edges :: "(node \<times> node \<times> real) list"

definition node_ids :: "dgraph \<Rightarrow> node list" where
  "node_ids g = map fst (nodes g)"

definition number_of_nodes :: "dgraph \<Rightarrow> nat" where
  "number_of_nodes g = length (nodes g)"

definition number_of_edges :: "dgraph \<Rightarrow> nat" where
  "number_of_edges g = length (edges g)"

text \<open>
  The invariant of a NetworkX graph object: node identifiers are the keys of a dict, and
  adding an edge adds its endpoints as nodes.
\<close>

definition wf_dgraph :: "dgraph \<Rightarrow> bool" where
  "wf_dgraph g =
     (distinct (node_ids g) \<and>
      list_all (\<lambda>e. fst e \<in> set (node_ids g) \<and> fst (snd e) \<in> set (node_ids g)) (edges g))"

definition has_selfloop :: "dgraph \<Rightarrow> bool" where
  "has_selfloop g = list_ex (\<lambda>e. fst e = fst (snd e)) (edges g)"

text \<open>
  \<open>nx.density(G)\<close>: \<open>m / (n * (n - 1))\<close>, doubled for an undirected graph, and 0 when
  there is no edge or at most one node.
\<close>

definition nx_density :: "nat \<Rightarrow> nat \<Rightarrow> bool \<Rightarrow> real" where
  "nx_density n m directed =
     (if m = 0 \<or> n \<le> 1 then 0
      else (let d = real m / (real n * (real n - 1))
            in if \<not> directed then d * 2 else d))"

definition density :: "dgraph \<Rightarrow> real" where
  "density g = nx_density (number_of_nodes g) (number_of_edges g) True"

subsection \<open>The simple undirected projection \<open>nx.Graph(G)\<close>\<close>

text \<open>
  An undirected NetworkX graph: the node list and, per node, the adjacency dict
  (neighbour to weight) as an association list in insertion order.
\<close>

record ugraph =
  unodes :: "node list"
  uadj :: "node \<Rightarrow> (node \<times> real) list"

text \<open>
  \<open>Graph.add_edge(u, v, weight=w)\<close> writes \<open>adj[u][v]\<close> and \<open>adj[v][u]\<close>; an entry that
  exists keeps its place and takes the new weight. The endpoints are nodes already.
\<close>

definition add_edge :: "ugraph \<Rightarrow> node \<times> node \<times> real \<Rightarrow> ugraph" where
  "add_edge G e =
     (case e of (u, v, w) \<Rightarrow>
        (let a1 = (uadj G)(u := AList.update v w (uadj G u));
             a2 = a1(v := AList.update u w (a1 v))
         in G\<lparr>uadj := a2\<rparr>))"

definition Graph_of :: "dgraph \<Rightarrow> ugraph" where
  "Graph_of g = foldl add_edge \<lparr>unodes = node_ids g, uadj = (\<lambda>_. [])\<rparr> (edges g)"

definition neighbors :: "ugraph \<Rightarrow> node \<Rightarrow> node list" where
  "neighbors G v = map fst (uadj G v)"

text \<open>\<open>G.degree(v)\<close> of an undirected graph: a self-loop counts twice.\<close>

definition degree :: "ugraph \<Rightarrow> node \<Rightarrow> nat" where
  "degree G v = length (neighbors G v) + (if v \<in> set (neighbors G v) then 1 else 0)"

definition unumber_of_edges :: "ugraph \<Rightarrow> nat" where
  "unumber_of_edges G = sum_list (map (degree G) (unodes G)) div 2"

text \<open>
  \<open>nx.degree_centrality(G)\<close>: every node gets 1 when \<open>len(G) <= 1\<close>, otherwise
  \<open>d * s\<close> with \<open>s = 1.0 / (len(G) - 1.0)\<close>. The dict is kept as an association list
  in node order.
\<close>

definition degree_centrality :: "ugraph \<Rightarrow> (node \<times> real) list" where
  "degree_centrality G =
     (if length (unodes G) \<le> 1 then map (\<lambda>n. (n, 1)) (unodes G)
      else (let s = 1 / (real (length (unodes G)) - 1)
            in map (\<lambda>n. (n, real (degree G n) * s)) (unodes G)))"

subsection \<open>Shortest path lengths, eccentricity and diameter\<close>

text \<open>Each element once, at the place of its first occurrence.\<close>

definition first_seen :: "'a list \<Rightarrow> 'a list" where
  "first_seen xs = rev (remdups (rev xs))"

text \<open>
  One level of the breadth-first search of \<open>nx.shortest_path_length\<close>: the neighbours of
  the frontier that have not been seen, in the order of their first encounter. Adjacency
  dicts of a NetworkX graph mention nodes of the graph only, so the membership test
  changes nothing on a graph built by \<open>Graph_of\<close>; it bounds the search.
\<close>

definition new_nodes :: "ugraph \<Rightarrow> node list \<Rightarrow> (node \<times> nat) list \<Rightarrow> node list" where
  "new_nodes G frontier seen =
     first_seen (filter (\<lambda>u. u \<in> set (unodes G) \<and> u \<notin> set (map fst seen))
                        (concat (map (neighbors G) frontier)))"

function bfs :: "ugraph \<Rightarrow> nat \<Rightarrow> node list \<Rightarrow> (node \<times> nat) list \<Rightarrow> (node \<times> nat) list" where
  "bfs G d frontier seen =
     (if new_nodes G frontier seen = [] then seen
      else bfs G (Suc d) (new_nodes G frontier seen)
             (seen @ map (\<lambda>u. (u, Suc d)) (new_nodes G frontier seen)))"
  by pat_completeness auto
termination
proof (relation "measure (\<lambda>(G, d, frontier, seen). card (set (unodes G) - set (map fst seen)))")
  show "wf (measure (\<lambda>(G, d, frontier, seen). card (set (unodes G) - set (map fst seen))))"
    by simp
next
  fix G :: ugraph and d :: nat and frontier :: "node list" and seen :: "(node \<times> nat) list"
  let ?new = "new_nodes G frontier seen"
  assume "?new \<noteq> []"
  then obtain u where u: "u \<in> set ?new"
    by (cases ?new) auto
  then have u_in: "u \<in> set (unodes G)" and u_new: "u \<notin> set (map fst seen)"
    by (auto simp: new_nodes_def first_seen_def)
  have "set (unodes G) - set (map fst (seen @ map (\<lambda>u. (u, Suc d)) ?new))
          \<subset> set (unodes G) - set (map fst seen)"
    using u u_in u_new by (auto simp: image_iff)
  then have "card (set (unodes G) - set (map fst (seen @ map (\<lambda>u. (u, Suc d)) ?new)))
               < card (set (unodes G) - set (map fst seen))"
    by (intro psubset_card_mono) auto
  then show "((G, Suc d, ?new, seen @ map (\<lambda>u. (u, Suc d)) ?new), (G, d, frontier, seen))
               \<in> measure (\<lambda>(G, d, frontier, seen). card (set (unodes G) - set (map fst seen)))"
    by (simp add: image_Un image_image)
qed

declare bfs.simps [simp del]

definition shortest_path_length :: "ugraph \<Rightarrow> node \<Rightarrow> (node \<times> nat) list" where
  "shortest_path_length G n = bfs G 0 [n] [(n, 0)]"

text \<open>
  \<open>nx.is_connected(G)\<close>: a search from the first node reaches every node. (On the null
  graph NetworkX raises; every call here comes after a test that the graph has a node.)
\<close>

definition is_connected :: "ugraph \<Rightarrow> bool" where
  "is_connected G =
     (case unodes G of
        [] \<Rightarrow> False
      | n # ns \<Rightarrow> length (shortest_path_length G n) = length (unodes G))"

text \<open>
  \<open>nx.eccentricity(G)\<close>: for each node in turn, the search must reach \<open>G.order()\<close> nodes,
  or NetworkXError ("Found infinite path length because the graph is not connected") is
  raised.
\<close>

fun eccentricity_loop :: "ugraph \<Rightarrow> node list \<Rightarrow> error + (node \<times> nat) list" where
  "eccentricity_loop G [] = Inr []"
| "eccentricity_loop G (n # ns) =
     (let len = shortest_path_length G n
      in if length len \<noteq> length (unodes G) then Inl NetworkXError
         else (case eccentricity_loop G ns of
                 Inl e \<Rightarrow> Inl e
               | Inr es \<Rightarrow> Inr ((n, fold max (map snd len) 0) # es)))"

definition eccentricity :: "ugraph \<Rightarrow> error + (node \<times> nat) list" where
  "eccentricity G = eccentricity_loop G (unodes G)"

text \<open>\<open>nx.diameter(G) = max(eccentricity(G).values())\<close>; \<open>max\<close> of nothing raises ValueError.\<close>

definition diameter :: "ugraph \<Rightarrow> error + nat" where
  "diameter G =
     (case eccentricity G of
        Inl e \<Rightarrow> Inl e
      | Inr es \<Rightarrow> (if es = [] then Inl ValueError else Inr (fold max (map snd es) 0)))"

text \<open>The adjacency relation of the projection and what "fully connected" means.\<close>

definition adjacent :: "ugraph \<Rightarrow> (node \<times> node) set" where
  "adjacent G = {(u, v). v \<in> set (neighbors G u)}"

definition fully_connected :: "ugraph \<Rightarrow> bool" where
  "fully_connected G = (\<forall>u \<in> set (unodes G). \<forall>v \<in> set (unodes G). (u, v) \<in> (adjacent G)\<^sup>*)"

subsection \<open>The centrality table\<close>

record centrality_row =
  Jogador :: node
  Degree :: real
  Closeness :: real
  Betweenness :: real
  Eigenvector :: real

text \<open>The styled network handed to pyvis.\<close>

record render_node =
  label :: node
  title :: "node \<times> int \<times> real"
  color :: string
  node_size :: real

record network =
  physics :: bool
  net_nodes :: "render_node list"
  net_edges :: "(node \<times> node) list"

text \<open>
  Library functions whose numeric results are left open. NetworkX returns, for each
  centrality, a dict with one entry per node of the graph in node order; only the values
  are parameters here. \<open>leading_eigenvector\<close> is the ARPACK solver
  (\<open>scipy.sparse.linalg.eigs\<close>) behind \<open>eigenvector_centrality_numpy\<close>, which may
  raise. \<open>rejects_disconnected\<close> is the installed NetworkX version: from 3.4 on,
  \<open>eigenvector_centrality_numpy\<close> refuses a graph that is not connected.
\<close>

record nx_lib =
  rejects_disconnected :: bool
  closeness_centrality :: "ugraph \<Rightarrow> node \<Rightarrow> real"
  betweenness_centrality :: "ugraph \<Rightarrow> node \<Rightarrow> real"
  leading_eigenvector :: "ugraph \<Rightarrow> error + (node \<Rightarrow> real)"
  average_clustering :: "ugraph \<Rightarrow> real"
  degree_assortativity_coefficient :: "ugraph \<Rightarrow> real"
  number_weakly_connected_components :: "dgraph \<Rightarrow> nat"
  number_strongly_connected_components :: "dgraph \<Rightarrow> nat"
  save_graph :: "network \<Rightarrow> error + string"

text \<open>
  \<open>nx.eigenvector_centrality_numpy(G, weight='weight')\<close>: NetworkXPointlessConcept on the
  null graph; AmbiguousSolution on a graph that is not connected (NetworkX 3.4 and later);
  then \<open>eigs(M.T, k=1)\<close>, which raises TypeError on a sparse matrix with \<open>k >= N - 1\<close>,
  that is with at most two nodes.
\<close>

definition eigenvector_centrality_numpy :: "nx_lib \<Rightarrow> ugraph \<Rightarrow> error + (node \<times> real) list" where
  "eigenvector_centrality_numpy lib G =
     (if unodes G = [] then Inl NetworkXPointlessConcept
      else if rejects_disconnected lib \<and> \<not> is_connected G then Inl AmbiguousSolution
      else if length (unodes G) \<le> 2 then Inl TypeError
      else (case leading_eigenvector lib G of
              Inl e \<Rightarrow> Inl e
            | Inr f \<Rightarrow> Inr (map (\<lambda>n. (n, f n)) (unodes G))))"

text \<open>\<open>pd.DataFrame\<close> of a dict of columns: ValueError unless all columns have one length.\<close>

definition DataFrame ::
  "node list \<Rightarrow> real list \<Rightarrow> real list \<Rightarrow> real list \<Rightarrow> real list \<Rightarrow> error + centrality_row list" where
  "DataFrame js ds cs bs es =
     (if length ds = length js \<and> length cs = length js \<and> length bs = length js
         \<and> length es = length js
      then Inr (map (\<lambda>(j, d, c, b, e).
                  \<lparr>Jogador = j, Degree = d, Closeness = c, Betweenness = b, Eigenvector = e\<rparr>)
                (zip js (zip ds (zip cs (zip bs es)))))
      else Inl ValueError)"

definition compute_centralities :: "nx_lib \<Rightarrow> dgraph \<Rightarrow> error + centrality_row list" where
  "compute_centralities lib g_completo =
     (let g_undir_simples = Graph_of g_completo;
          jogador = unodes g_undir_simples;
          deg = map snd (degree_centrality g_undir_simples);
          clo = map (closeness_centrality lib g_undir_simples) (unodes g_undir_simples);
          bet = map (betweenness_centrality lib g_undir_simples) (unodes g_undir_simples)
      in (case eigenvector_centrality_numpy lib g_undir_simples of
            Inl e \<Rightarrow> Inl e
          | Inr eig \<Rightarrow> DataFrame jogador deg clo bet (map snd eig)))"

subsection \<open>Loading\<close>

text \<open>
  The files of the working directory: a file is absent or holds a graph (parsing GraphML
  is outside the model).
\<close>

type_synonym files = "string \<Rightarrow> dgraph option"

definition read_graphml :: "files \<Rightarrow> string \<Rightarrow> error + dgraph" where
  "read_graphml fs name = (case fs name of None \<Rightarrow> Inl FileNotFoundError | Some g \<Rightarrow> Inr g)"

datatype metric_label =
    Total_Nodes | Total_Edges | Density | Clustering | Assortativity | Diameter
  | Weak_Components | Strong_Components

datatype shown = IntV nat | FloatV real

text \<open>What the page shows, in order (headers and explanatory text are left out).\<close>

datatype event =
    StError error
  | StWarning
  | Metric metric_label shown
  | Dataframe string "(node \<times> real) list"
  | Html string

type_synonym loaded = "dgraph option \<times> dgraph option \<times> centrality_row list option"

text \<open>
  \<open>carregar_e_processar_dados\<close>: only FileNotFoundError of the two reads is caught, and
  then \<open>(None, None, None)\<close> is returned after \<open>st.error\<close>. An exception of the
  centrality computation leaves the function.
\<close>

definition carregar_e_processar_dados :: "nx_lib \<Rightarrow> files \<Rightarrow> error + (event list \<times> loaded)" where
  "carregar_e_processar_dados lib fs =
     (case read_graphml fs ''rede_completa.graphml'' of
        Inl e \<Rightarrow> (if e = FileNotFoundError
                  then Inr ([StError FileNotFoundError], None, None, None) else Inl e)
      | Inr g_completo \<Rightarrow>
          (case read_graphml fs ''rede_visualizacao.graphml'' of
             Inl e \<Rightarrow> (if e = FileNotFoundError
                       then Inr ([StError FileNotFoundError], None, None, None) else Inl e)
           | Inr g_visualizacao \<Rightarrow>
               (case compute_centralities lib g_completo of
                  Inl e \<Rightarrow> Inl e
                | Inr centrality_df \<Rightarrow>
                    Inr ([], Some g_completo, Some g_visualizacao, Some centrality_df))))"

subsection \<open>The three tabs\<close>

text \<open>
  The metrics tab: five metrics are shown, then \<open>nx.diameter\<close> is evaluated; nothing
  catches its exception. The result is what was shown and the exception that ended the
  run, if any.
\<close>

definition tab_metricas :: "nx_lib \<Rightarrow> dgraph \<Rightarrow> event list \<times> error option" where
  "tab_metricas lib G_completo =
     (let g_undir_simples = Graph_of G_completo;
          shown5 =
            [Metric Total_Nodes (IntV (number_of_nodes G_completo)),
             Metric Total_Edges (IntV (number_of_edges G_completo)),
             Metric Density (FloatV (density G_completo)),
             Metric Clustering (FloatV (average_clustering lib g_undir_simples)),
             Metric Assortativity (FloatV (degree_assortativity_coefficient lib g_undir_simples))]
      in (case diameter g_undir_simples of
            Inl e \<Rightarrow> (shown5, Some e)
          | Inr d \<Rightarrow>
              (shown5 @
               [Metric Diameter (IntV d),
                Metric Weak_Components (IntV (number_weakly_connected_components lib G_completo)),
                Metric Strong_Components (IntV (number_strongly_connected_components lib G_completo))],
               None)))"

text \<open>
  \<open>DataFrame.nlargest(k, column)\<close> with the default \<open>keep='first'\<close>: the first \<open>k\<close> rows
  of the table sorted by descending score, rows of equal score in table order.
\<close>

definition nlargest :: "nat \<Rightarrow> (node \<times> real) list \<Rightarrow> (node \<times> real) list" where
  "nlargest k rows = take k (sort_key (\<lambda>r. - snd r) rows)"

definition top_k :: "centrality_row list \<Rightarrow> (centrality_row \<Rightarrow> real) \<Rightarrow> nat \<Rightarrow> (node \<times> real) list" where
  "top_k centrality_df column k = nlargest k (map (\<lambda>r. (Jogador r, column r)) centrality_df)"

definition tab_centralidade :: "centrality_row list \<Rightarrow> nat \<Rightarrow> event list" where
  "tab_centralidade centrality_df k_slider =
     [Dataframe ''Degree'' (top_k centrality_df Degree k_slider),
      Dataframe ''Betweenness'' (top_k centrality_df Betweenness k_slider),
      Dataframe ''Eigenvector'' (top_k centrality_df Eigenvector k_slider),
      Dataframe ''Closeness'' (top_k centrality_df Closeness k_slider)]"

definition palette :: "string list" where
  "palette = [''#e6194b'', ''#3cb44b'', ''#ffe119'', ''#4363d8'',
              ''#f58231'', ''#911eb4'', ''#46f0f0'', ''#f032e6'']"

text \<open>\<open>pd.Series(values, index=Jogador).to_dict()\<close>: a later row replaces an earlier key.\<close>

definition eigenvector_scores :: "centrality_row list \<Rightarrow> (node \<times> real) list" where
  "eigenvector_scores centrality_df =
     foldl (\<lambda>d r. AList.update (Jogador r) (Eigenvector r) d) [] centrality_df"

text \<open>\<open>max(eigenvector_scores.values()) if eigenvector_scores else 1.0\<close>\<close>

definition max_eigenvector :: "(node \<times> real) list \<Rightarrow> real" where
  "max_eigenvector scores = (case map snd scores of [] \<Rightarrow> 1 | x # xs \<Rightarrow> fold max xs x)"

text \<open>\<open>G_completo.nodes[node].get('community', 0)\<close>: KeyError if the node is not there.\<close>

definition community_of :: "dgraph \<Rightarrow> node \<Rightarrow> error + int" where
  "community_of G_completo node =
     (case map_of (nodes G_completo) node of
        None \<Rightarrow> Inl KeyError
      | Some attr \<Rightarrow> Inr (case attr of None \<Rightarrow> 0 | Some c \<Rightarrow> c))"

definition color_of :: "int \<Rightarrow> string" where
  "color_of community_id = palette ! nat (community_id mod int (length palette))"

text \<open>\<open>10 + (eigenvector / max_eigenvector) * 40\<close>: float division by zero raises.\<close>

definition size_of :: "real \<Rightarrow> real \<Rightarrow> error + real" where
  "size_of eigenvector mx =
     (if mx = 0 then Inl ZeroDivisionError else Inr (10 + (eigenvector / mx) * 40))"

definition style_node :: "dgraph \<Rightarrow> (node \<times> real) list \<Rightarrow> real \<Rightarrow> node \<Rightarrow> error + render_node" where
  "style_node G_completo scores mx node =
     (case community_of G_completo node of
        Inl e \<Rightarrow> Inl e
      | Inr community_id \<Rightarrow>
          (let eigenvector = (case map_of scores node of None \<Rightarrow> 0 | Some e \<Rightarrow> e);
               col = color_of community_id
           in (case size_of eigenvector mx of
                 Inl e \<Rightarrow> Inl e
               | Inr sz \<Rightarrow>
                   Inr \<lparr>label = node, title = (node, community_id, eigenvector),
                        color = col, node_size = sz\<rparr>)))"

fun style_nodes :: "dgraph \<Rightarrow> (node \<times> real) list \<Rightarrow> real \<Rightarrow> node list \<Rightarrow> error + render_node list" where
  "style_nodes G_completo scores mx [] = Inr []"
| "style_nodes G_completo scores mx (n # ns) =
     (case style_node G_completo scores mx n of
        Inl e \<Rightarrow> Inl e
      | Inr r \<Rightarrow>
          (case style_nodes G_completo scores mx ns of
             Inl e \<Rightarrow> Inl e
           | Inr rs \<Rightarrow> Inr (r # rs)))"

definition build_render_set :: "bool \<Rightarrow> dgraph \<Rightarrow> dgraph \<Rightarrow> centrality_row list \<Rightarrow> error + network" where
  "build_render_set physics_enabled G_visualizacao G_completo centrality_df =
     (let scores = eigenvector_scores centrality_df;
          mx = max_eigenvector scores
      in (case style_nodes G_completo scores mx (node_ids G_visualizacao) of
            Inl e \<Rightarrow> Inl e
          | Inr ns \<Rightarrow>
              Inr \<lparr>physics = physics_enabled, net_nodes = ns,
                   net_edges = map (\<lambda>e. (fst e, fst (snd e))) (edges G_visualizacao)\<rparr>))"

text \<open>The network tab: only the exceptions of saving and showing the HTML are caught.\<close>

definition tab_rede ::
  "nx_lib \<Rightarrow> bool \<Rightarrow> dgraph \<Rightarrow> dgraph \<Rightarrow> centrality_row list \<Rightarrow> event list \<times> error option" where
  "tab_rede lib physics_enabled G_visualizacao G_completo centrality_df =
     (case build_render_set physics_enabled G_visualizacao G_completo centrality_df of
        Inl e \<Rightarrow> ([], Some e)
      | Inr net \<Rightarrow>
          (case save_graph lib net of
             Inl e \<Rightarrow> ([StError e], None)
           | Inr source_code \<Rightarrow> ([Html source_code], None)))"

subsection \<open>The page\<close>

text \<open>The truth value of a loaded handle: \<open>None\<close> is false, a graph is \<open>len(G) != 0\<close>.\<close>

definition truthy :: "dgraph option \<Rightarrow> bool" where
  "truthy G = (case G of None \<Rightarrow> False | Some g \<Rightarrow> number_of_nodes g \<noteq> 0)"

definition app :: "nx_lib \<Rightarrow> files \<Rightarrow> nat \<Rightarrow> bool \<Rightarrow> event list \<times> error option" where
  "app lib fs k_slider physics_enabled =
     (case carregar_e_processar_dados lib fs of
        Inl e \<Rightarrow> ([], Some e)
      | Inr (shown0, G_completo, G_visualizacao, centrality_df) \<Rightarrow>
          (if truthy G_completo \<and> truthy G_visualizacao \<and> centrality_df \<noteq> None
           then (case tab_metricas lib (the G_completo) of
                   (shown1, Some e) \<Rightarrow> (shown0 @ shown1, Some e)
                 | (shown1, None) \<Rightarrow>
                     (case tab_rede lib physics_enabled (the G_visualizacao) (the G_completo)
                             (the centrality_df) of
                        (shown3, r) \<Rightarrow>
                          (shown0 @ shown1 @ tab_centralidade (the centrality_df) k_slider @ shown3,
                           r)))
           else (shown0 @ [StWarning], None)))"

text \<open>Which kinds of output a run produced.\<close>

definition is_metric :: "event \<Rightarrow> bool" where
  "is_metric ev = (case ev of Metric l v \<Rightarrow> True | _ \<Rightarrow> False)"

definition is_ranking :: "event \<Rightarrow> bool" where
  "is_ranking ev = (case ev of Dataframe c rows \<Rightarrow> True | _ \<Rightarrow> False)"

definition is_render :: "event \<Rightarrow> bool" where
  "is_render ev = (case ev of Html h \<Rightarrow> True | _ \<Rightarrow> False)"

definition metric_labels :: "event list \<Rightarrow> metric_label list" where
  "metric_labels evs = concat (map (\<lambda>ev. case ev of Metric l v \<Rightarrow> [l] | _ \<Rightarrow> []) evs)"

subsection \<open>The scenario graphs\<close>

text \<open>Three nodes, edges A to B and B to C of weight 1.\<close>

definition path_graph :: dgraph where
  "path_graph = \<lparr>nodes = [(''A'', None), (''B'', None), (''C'', None)],
                 edges = [(''A'', ''B'', 1), (''B'', ''C'', 1)]\<rparr>"

text \<open>Two players who beat each other once.\<close>

definition mutual_graph :: dgraph where
  "mutual_graph = \<lparr>nodes = [(''A'', None), (''B'', None)],
                   edges = [(''A'', ''B'', 1), (''B'', ''A'', 1)]\<rparr>"

text \<open>A GraphML file may hold an edge from a node to itself.\<close>

definition selfloop_graph :: dgraph where
  "selfloop_graph = \<lparr>nodes = [(''A'', None), (''B'', None)],
                     edges = [(''A'', ''A'', 1), (''A'', ''B'', 1)]\<rparr>"

text \<open>The path A, B, C and a fourth player D without a match: not connected.\<close>

definition split_graph :: dgraph where
  "split_graph = \<lparr>nodes = [(''A'', None), (''B'', None), (''C'', None), (''D'', None)],
                  edges = [(''A'', ''B'', 1), (''B'', ''C'', 1)]\<rparr>"

definition empty_graph :: dgraph where
  "empty_graph = \<lparr>nodes = [], edges = []\<rparr>"




text \<open>
  The values NetworkX returns on the projection of \<open>path_graph\<close> (closeness 2/3, 1, 2/3;
  betweenness 0, 1, 0; the unit leading eigenvector 1/2, sqrt 2 / 2, 1/2; clustering 0;
  assortativity -1; one weak and three strong components), with NetworkX 3.4 or later.
  This instance stands for the library on that graph only.
\<close>

definition nx_on_path :: nx_lib where
  "nx_on_path =
     \<lparr>rejects_disconnected = True,
      closeness_centrality = (\<lambda>G n. if n = ''B'' then 1 else 2 / 3),
      betweenness_centrality = (\<lambda>G n. if n = ''B'' then 1 else 0),
      leading_eigenvector = (\<lambda>G. Inr (\<lambda>n. if n = ''B'' then sqrt 2 / 2 else 1 / 2)),
      average_clustering = (\<lambda>G. 0),
      degree_assortativity_coefficient = (\<lambda>G. - 1),
      number_weakly_connected_components = (\<lambda>g. 1),
      number_strongly_connected_components = (\<lambda>g. 3),
      save_graph = (\<lambda>net. Inr ''html'')\<rparr>"

text \<open>
  The values NetworkX returns on the projection of \<open>split_graph\<close> (closeness 4/9, 2/3,
  4/9, 0; betweenness 0, 1/3, 0, 0; leading eigenvector 1/2, sqrt 2 / 2, 1/2, 0;
  clustering 0; assortativity -1; two weak and four strong components). The argument
  says whether NetworkX is 3.4 or later.
\<close>

definition nx_on_split :: "bool \<Rightarrow> nx_lib" where
  "nx_on_split v34 =
     \<lparr>rejects_disconnected = v34,
      closeness_centrality =
        (\<lambda>G n. if n = ''B'' then 2 / 3 else if n = ''D'' then 0 else 4 / 9),
      betweenness_centrality = (\<lambda>G n. if n = ''B'' then 1 / 3 else 0),
      leading_eigenvector =
        (\<lambda>G. Inr (\<lambda>n. if n = ''B'' then sqrt 2 / 2 else if n = ''D'' then 0 else 1 / 2)),
      average_clustering = (\<lambda>G. 0),
      degree_assortativity_coefficient = (\<lambda>G. - 1),
      number_weakly_connected_components = (\<lambda>g. 2),
      number_strongly_connected_components = (\<lambda>g. 4),
      save_graph = (\<lambda>net. Inr ''html'')\<rparr>"

text \<open>The centrality table of \<open>path_graph\<close>.\<close>

definition path_table :: "centrality_row list" where
  "path_table =
     [\<lparr>Jogador = ''A'', Degree = 1 / 2, Closeness = 2 / 3, Betweenness = 0, Eigenvector = 1 / 2\<rparr>,
      \<lparr>Jogador = ''B'', Degree = 1, Closeness = 1, Betweenness = 1, Eigenvector = sqrt 2 / 2\<rparr>,
      \<lparr>Jogador = ''C'', Degree = 1 / 2, Closeness = 2 / 3, Betweenness = 0, Eigenvector = 1 / 2\<rparr>]"


definition files_of :: "dgraph option \<Rightarrow> dgraph option \<Rightarrow> files" where
  "files_of full view =
     (\<lambda>name. if name = ''rede_completa.graphml'' then full
             else if name = ''rede_visualizacao.graphml'' then view
             else None)"

section \<open>Properties\<close>

subsection \<open>The projection\<close>

lemma unodes_add_edge: "unodes (add_edge G e) = unodes G"
  by (cases e) (simp add: add_edge_def Let_def)

lemma unodes_foldl_add_edge: "unodes (foldl add_edge G es) = unodes G"
  by (induction es arbitrary: G) (simp_all add: unodes_add_edge)

lemma unodes_Graph_of: "unodes (Graph_of g) = node_ids g"
  by (simp add: Graph_of_def unodes_foldl_add_edge)

lemma neighbors_add_edge:
  "set (neighbors (add_edge G (a, b, w)) v) =
     set (neighbors G v) \<union> (if v = a then {b} else {}) \<union> (if v = b then {a} else {})"
  by (auto simp: add_edge_def neighbors_def Let_def dom_update)

lemma distinct_neighbors_add_edge:
  "distinct (neighbors G v) \<Longrightarrow> distinct (neighbors (add_edge G e) v)"
  by (cases e) (auto simp: add_edge_def neighbors_def Let_def distinct_update)

lemma neighbors_foldl_add_edge:
  "set (neighbors (foldl add_edge G es) v) =
     set (neighbors G v) \<union> {b. \<exists>w. (v, b, w) \<in> set es} \<union> {a. \<exists>w. (a, v, w) \<in> set es}"
proof (induction es arbitrary: G)
  case Nil
  then show ?case by simp
next
  case (Cons e es)
  obtain a b w where e: "e = (a, b, w)" by (cases e) auto
  show ?case
    unfolding foldl_Cons Cons.IH e neighbors_add_edge by auto
qed

lemma distinct_neighbors_foldl:
  "distinct (neighbors G v) \<Longrightarrow> distinct (neighbors (foldl add_edge G es) v)"
  by (induction es arbitrary: G) (simp_all add: distinct_neighbors_add_edge)

text \<open>The neighbours of a node in the projection: the other ends of its edges.\<close>

lemma neighbors_Graph_of:
  "set (neighbors (Graph_of g) v) =
     {b. \<exists>w. (v, b, w) \<in> set (edges g)} \<union> {a. \<exists>w. (a, v, w) \<in> set (edges g)}"
  by (simp add: Graph_of_def neighbors_foldl_add_edge) (simp add: neighbors_def)

lemma distinct_neighbors_Graph_of: "distinct (neighbors (Graph_of g) v)"
  unfolding Graph_of_def by (rule distinct_neighbors_foldl) (simp add: neighbors_def)

lemma neighbors_in_nodes:
  assumes "wf_dgraph g"
  shows "set (neighbors (Graph_of g) v) \<subseteq> set (node_ids g)"
  using assms unfolding neighbors_Graph_of wf_dgraph_def list_all_iff by fastforce

lemma not_self_neighbor:
  assumes "\<not> has_selfloop g"
  shows "v \<notin> set (neighbors (Graph_of g) v)"
  using assms unfolding neighbors_Graph_of has_selfloop_def list_ex_iff by fastforce

text \<open>Parallel edges and both directions collapse: the degree counts distinct neighbours.\<close>

lemma degree_card:
  "degree (Graph_of g) v =
     card ({b. \<exists>w. (v, b, w) \<in> set (edges g)} \<union> {a. \<exists>w. (a, v, w) \<in> set (edges g)})
     + (if \<exists>w. (v, v, w) \<in> set (edges g) then 1 else 0)"
proof -
  have "length (neighbors (Graph_of g) v) = card (set (neighbors (Graph_of g) v))"
    by (simp add: distinct_card distinct_neighbors_Graph_of)
  then show ?thesis
    unfolding degree_def by (auto simp: neighbors_Graph_of)
qed

lemma degree_le:
  assumes wf: "wf_dgraph g" and nl: "\<not> has_selfloop g" and v: "v \<in> set (node_ids g)"
  shows "degree (Graph_of g) v \<le> number_of_nodes g - 1"
proof -
  let ?N = "neighbors (Graph_of g) v"
  have notin: "v \<notin> set ?N" by (rule not_self_neighbor [OF nl])
  have sub: "set ?N \<subseteq> set (node_ids g) - {v}"
    using neighbors_in_nodes [OF wf, of v] notin by auto
  have "length ?N = card (set ?N)"
    by (simp add: distinct_card distinct_neighbors_Graph_of)
  also have "\<dots> \<le> card (set (node_ids g) - {v})"
    by (rule card_mono) (use sub in auto)
  also have "\<dots> = card (set (node_ids g)) - 1"
    using v by simp
  also have "\<dots> \<le> length (node_ids g) - 1"
    by (simp add: card_length diff_le_mono)
  finally show ?thesis
    using notin by (simp add: degree_def number_of_nodes_def node_ids_def)
qed

lemma map_of_tabulate:
  "v \<in> set xs \<Longrightarrow> map_of (map (\<lambda>n. (n, f n)) xs) v = Some (f v)"
  by (induction xs) auto


subsection \<open>Density\<close>

text \<open>
  C1 (as the code has it). The density shown in the metrics tab is \<open>nx.density\<close> of the
  full directed graph itself, not of its undirected projection: the number of directed
  edges, parallel edges counted, over \<open>n * (n - 1)\<close>, and 0 when there is no edge or
  fewer than two nodes. For the three-node scenario it is 1/3.
\<close>

theorem density_of_directed_graph:
  "fst (tab_metricas lib g) ! 2 = Metric Density (FloatV (density g))
   \<and> density g =
       (if number_of_edges g = 0 \<or> number_of_nodes g \<le> 1 then 0
        else real (number_of_edges g) / (real (number_of_nodes g) * (real (number_of_nodes g) - 1)))
   \<and> density path_graph = 1 / 3"
proof -
  have "fst (tab_metricas lib g) ! 2 = Metric Density (FloatV (density g))"
    by (simp add: tab_metricas_def Let_def split: sum.split)
  moreover have "density g =
       (if number_of_edges g = 0 \<or> number_of_nodes g \<le> 1 then 0
        else real (number_of_edges g) / (real (number_of_nodes g) * (real (number_of_nodes g) - 1)))"
    by (simp add: density_def nx_density_def Let_def)
  moreover have "density path_graph = 1 / 3"
    by (simp add: density_def nx_density_def path_graph_def number_of_nodes_def
        number_of_edges_def)
  ultimately show ?thesis by blast
qed

theorem density_of_directed_graph_witness:
  "fst (tab_metricas nx_on_path path_graph) ! 2 = Metric Density (FloatV (1 / 3))"
  using density_of_directed_graph [of nx_on_path path_graph] by simp

text \<open>
  C1 as stated fails: the scenario's density is 1/3, not 2/3, and on two players who beat
  each other the shown density is 1 while the projection has one edge on two nodes.
\<close>

theorem density_scenario_counterexample:
  "density path_graph = 1 / 3 \<and> density path_graph \<noteq> 2 / 3
   \<and> density mutual_graph = 1
   \<and> real (unumber_of_edges (Graph_of mutual_graph))
       / (real (number_of_nodes mutual_graph) * (real (number_of_nodes mutual_graph) - 1)) = 1 / 2"
  by (simp add: density_def nx_density_def path_graph_def mutual_graph_def number_of_nodes_def
      number_of_edges_def unumber_of_edges_def Graph_of_def node_ids_def add_edge_def
      degree_def neighbors_def Let_def)

subsection \<open>Degree centrality\<close>

text \<open>
  C8 (as the code has it). For a graph with at least two nodes, the degree centrality of
  each node is its degree in the projection divided by \<open>node_count - 1\<close>; it is never
  negative, and it is at most 1 when the graph has no self-loop. (The projection keeps a
  self-loop, which counts twice in the degree.) For the path A, B, C the values are
  0.5, 1.0 and 0.5.
\<close>

theorem degree_centrality_projection:
  assumes wf: "wf_dgraph g" and n2: "2 \<le> number_of_nodes g" and v: "v \<in> set (node_ids g)"
  shows "map_of (degree_centrality (Graph_of g)) v
           = Some (real (degree (Graph_of g) v) / (real (number_of_nodes g) - 1))
         \<and> 0 \<le> real (degree (Graph_of g) v) / (real (number_of_nodes g) - 1)
         \<and> (\<not> has_selfloop g \<longrightarrow>
              real (degree (Graph_of g) v) / (real (number_of_nodes g) - 1) \<le> 1)
         \<and> degree_centrality (Graph_of path_graph) = [(''A'', 1 / 2), (''B'', 1), (''C'', 1 / 2)]"
proof -
  let ?n = "number_of_nodes g"
  have len: "length (node_ids g) = ?n"
    by (simp add: node_ids_def number_of_nodes_def)
  have pos: "0 < real ?n - 1" using n2 by simp
  have a: "map_of (degree_centrality (Graph_of g)) v
           = Some (real (degree (Graph_of g) v) / (real ?n - 1))"
    using n2 v by (simp add: degree_centrality_def len Let_def unodes_Graph_of map_of_tabulate)
  have b: "0 \<le> real (degree (Graph_of g) v) / (real ?n - 1)"
    using pos by simp
  have c: "real (degree (Graph_of g) v) / (real ?n - 1) \<le> 1" if nl: "\<not> has_selfloop g"
  proof -
    have "degree (Graph_of g) v \<le> ?n - 1" by (rule degree_le [OF wf nl v])
    then have "real (degree (Graph_of g) v) \<le> real ?n - 1" using n2 by linarith
    then show ?thesis using pos by simp
  qed
  have d: "degree_centrality (Graph_of path_graph) = [(''A'', 1 / 2), (''B'', 1), (''C'', 1 / 2)]"
    by (simp add: degree_centrality_def Graph_of_def path_graph_def node_ids_def add_edge_def
        degree_def neighbors_def Let_def)
  from a b c d show ?thesis by blast
qed

theorem degree_centrality_projection_witness:
  "wf_dgraph path_graph \<and> 2 \<le> number_of_nodes path_graph \<and> ''B'' \<in> set (node_ids path_graph)
   \<and> \<not> has_selfloop path_graph
   \<and> map_of (degree_centrality (Graph_of path_graph)) ''B'' = Some 1
   \<and> real (degree (Graph_of path_graph) ''B'') / (real (number_of_nodes path_graph) - 1) \<le> 1"
proof -
  have h1: "wf_dgraph path_graph"
    by (simp add: wf_dgraph_def path_graph_def node_ids_def)
  have h2: "2 \<le> number_of_nodes path_graph"
    by (simp add: number_of_nodes_def path_graph_def)
  have h3: "''B'' \<in> set (node_ids path_graph)"
    by (simp add: node_ids_def path_graph_def)
  have h4: "\<not> has_selfloop path_graph"
    by (simp add: has_selfloop_def path_graph_def)
  have d: "real (degree (Graph_of path_graph) ''B'') / (real (number_of_nodes path_graph) - 1) = 1"
    by (simp add: Graph_of_def path_graph_def node_ids_def add_edge_def degree_def neighbors_def
        Let_def number_of_nodes_def)
  show ?thesis
    using degree_centrality_projection [OF h1 h2 h3] h1 h2 h3 h4 d by simp
qed

text \<open>
  C8 as stated fails on a graph with a self-loop: with nodes A and B and edges A to A and
  A to B, the degree of A in the projection is 3 and its centrality is 3.
\<close>

theorem degree_centrality_selfloop_counterexample:
  "wf_dgraph selfloop_graph \<and> 2 \<le> number_of_nodes selfloop_graph
   \<and> degree_centrality (Graph_of selfloop_graph) = [(''A'', 3), (''B'', 1)]"
  by (simp add: degree_centrality_def Graph_of_def selfloop_graph_def node_ids_def add_edge_def
        degree_def neighbors_def Let_def wf_dgraph_def number_of_nodes_def)

subsection \<open>The diameter of a disconnected projection\<close>

lemma bfs_invariant:
  assumes "distinct (map fst seen)" and "set frontier \<subseteq> fst ` set seen"
    and "fst ` set seen \<subseteq> R" and "\<And>u v. u \<in> R \<Longrightarrow> (u, v) \<in> adjacent G \<Longrightarrow> v \<in> R"
  shows "distinct (map fst (bfs G d frontier seen))
         \<and> fst ` set (bfs G d frontier seen) \<subseteq> R
         \<and> fst ` set (bfs G d frontier seen) \<subseteq> fst ` set seen \<union> set (unodes G)"
  using assms
proof (induction G d frontier seen rule: bfs.induct)
  case (1 G d frontier seen)
  let ?new = "new_nodes G frontier seen"
  show ?case
  proof (cases "?new = []")
    case True
    then show ?thesis
      using "1.prems" by (subst bfs.simps, subst bfs.simps, subst bfs.simps) auto
  next
    case False
    let ?seen' = "seen @ map (\<lambda>u. (u, Suc d)) ?new"
    have keys: "map fst ?seen' = map fst seen @ ?new"
      by (simp add: comp_def)
    have new_sub: "set ?new \<subseteq> set (unodes G)" and new_fresh: "set ?new \<inter> fst ` set seen = {}"
      by (auto simp: new_nodes_def first_seen_def)
    have new_R: "set ?new \<subseteq> R"
    proof
      fix u assume "u \<in> set ?new"
      then obtain v where v: "v \<in> set frontier" and uv: "u \<in> set (neighbors G v)"
        by (auto simp: new_nodes_def first_seen_def)
      from v "1.prems"(2,3) have "v \<in> R" by auto
      moreover from uv have "(v, u) \<in> adjacent G" by (simp add: adjacent_def)
      ultimately show "u \<in> R" by (rule "1.prems"(4))
    qed
    have d': "distinct (map fst ?seen')"
      unfolding keys using "1.prems"(1) new_fresh by (auto simp: new_nodes_def first_seen_def)
    have f': "set ?new \<subseteq> fst ` set ?seen'"
      by (auto simp: image_Un image_image)
    have r': "fst ` set ?seen' \<subseteq> R"
      using "1.prems"(3) new_R by (auto simp: image_Un image_image)
    have IH: "distinct (map fst (bfs G (Suc d) ?new ?seen'))
         \<and> fst ` set (bfs G (Suc d) ?new ?seen') \<subseteq> R
         \<and> fst ` set (bfs G (Suc d) ?new ?seen') \<subseteq> fst ` set ?seen' \<union> set (unodes G)"
      by (rule "1.IH" [OF False d' f' r' "1.prems"(4)])
    have step: "bfs G d frontier seen = bfs G (Suc d) ?new ?seen'"
      using False by (subst bfs.simps) simp
    have "fst ` set ?seen' \<union> set (unodes G) \<subseteq> fst ` set seen \<union> set (unodes G)"
      using new_sub by (auto simp: image_Un image_image)
    with IH show ?thesis unfolding step by blast
  qed
qed

lemma shortest_path_length_unreachable:
  assumes n: "n \<in> set (unodes G)" and w: "w \<in> set (unodes G)"
    and unreach: "(n, w) \<notin> (adjacent G)\<^sup>*"
  shows "length (shortest_path_length G n) \<noteq> length (unodes G)"
proof -
  let ?R = "{v. (n, v) \<in> (adjacent G)\<^sup>*}"
  let ?res = "shortest_path_length G n"
  have inv: "distinct (map fst ?res) \<and> fst ` set ?res \<subseteq> ?R
             \<and> fst ` set ?res \<subseteq> fst ` set [(n, 0::nat)] \<union> set (unodes G)"
    unfolding shortest_path_length_def
    by (rule bfs_invariant) (auto intro: rtrancl_into_rtrancl)
  then have sub: "fst ` set ?res \<subseteq> set (unodes G) - {w}"
    using n unreach by auto
  have "length ?res = card (fst ` set ?res)"
    using inv distinct_card [of "map fst ?res"] by simp
  also have "\<dots> \<le> card (set (unodes G) - {w})"
    using sub by (intro card_mono) auto
  also have "\<dots> < card (set (unodes G))"
    using w by (intro psubset_card_mono) auto
  also have "\<dots> \<le> length (unodes G)"
    by (rule card_length)
  finally show ?thesis by simp
qed

lemma eccentricity_loop_fails:
  assumes "n \<in> set ns" and "length (shortest_path_length G n) \<noteq> length (unodes G)"
  shows "eccentricity_loop G ns = Inl NetworkXError"
  using assms
proof (induction ns)
  case Nil
  then show ?case by simp
next
  case (Cons m ns)
  show ?case
  proof (cases "length (shortest_path_length G m) \<noteq> length (unodes G)")
    case True
    then show ?thesis by (simp add: Let_def)
  next
    case False
    with Cons.prems have "n \<in> set ns" by auto
    then have "eccentricity_loop G ns = Inl NetworkXError"
      using Cons.IH Cons.prems(2) by blast
    with False show ?thesis by (simp add: Let_def)
  qed
qed

lemma diameter_disconnected:
  assumes "\<not> fully_connected G"
  shows "diameter G = Inl NetworkXError"
proof -
  from assms obtain u v where u: "u \<in> set (unodes G)" and v: "v \<in> set (unodes G)"
    and uv: "(u, v) \<notin> (adjacent G)\<^sup>*"
    by (auto simp: fully_connected_def)
  have "length (shortest_path_length G u) \<noteq> length (unodes G)"
    by (rule shortest_path_length_unreachable [OF u v uv])
  then have "eccentricity G = Inl NetworkXError"
    unfolding eccentricity_def using u by (rule eccentricity_loop_fails [rotated])
  then show ?thesis by (simp add: diameter_def)
qed

lemma adjacent_sym: "sym (adjacent (Graph_of g))"
  unfolding sym_def adjacent_def by (auto simp: neighbors_Graph_of)

lemma shortest_path_length_keys:
  "distinct (map fst (shortest_path_length G n))
   \<and> fst ` set (shortest_path_length G n) \<subseteq> {v. (n, v) \<in> (adjacent G)\<^sup>*}
   \<and> fst ` set (shortest_path_length G n) \<subseteq> insert n (set (unodes G))"
proof -
  have "distinct (map fst (bfs G 0 [n] [(n, 0)]))
        \<and> fst ` set (bfs G 0 [n] [(n, 0)]) \<subseteq> {v. (n, v) \<in> (adjacent G)\<^sup>*}
        \<and> fst ` set (bfs G 0 [n] [(n, 0)]) \<subseteq> fst ` set [(n, 0::nat)] \<union> set (unodes G)"
    by (rule bfs_invariant) (auto intro: rtrancl_into_rtrancl)
  then show ?thesis by (simp add: shortest_path_length_def)
qed

lemma is_connected_reaches_all:
  assumes "is_connected G"
  shows "\<exists>f \<in> set (unodes G). set (unodes G) \<subseteq> {v. (f, v) \<in> (adjacent G)\<^sup>*}"
proof -
  from assms obtain f ns where ns: "unodes G = f # ns"
    and len: "length (shortest_path_length G f) = length (unodes G)"
    by (auto simp: is_connected_def split: list.splits)
  let ?K = "fst ` set (shortest_path_length G f)"
  note inv = shortest_path_length_keys [of G f]
  have f: "f \<in> set (unodes G)" using ns by simp
  have sub: "?K \<subseteq> set (unodes G)" using inv f by auto
  have "card ?K = length (shortest_path_length G f)"
    using inv distinct_card [of "map fst (shortest_path_length G f)"] by simp
  then have "card (set (unodes G)) \<le> card ?K"
    using len card_length [of "unodes G"] by simp
  then have "?K = set (unodes G)"
    using sub by (intro card_seteq) auto
  then have "set (unodes G) \<subseteq> {v. (f, v) \<in> (adjacent G)\<^sup>*}"
    using inv by auto
  with f show ?thesis by blast
qed

lemma not_fully_connected_not_is_connected:
  assumes "\<not> fully_connected (Graph_of g)"
  shows "\<not> is_connected (Graph_of g)"
proof
  let ?G = "Graph_of g"
  assume "is_connected ?G"
  then obtain f where all: "set (unodes ?G) \<subseteq> {v. (f, v) \<in> (adjacent ?G)\<^sup>*}"
    using is_connected_reaches_all by blast
  have "(u, v) \<in> (adjacent ?G)\<^sup>*" if u: "u \<in> set (unodes ?G)" and v: "v \<in> set (unodes ?G)" for u v
  proof -
    from all u v have fu: "(f, u) \<in> (adjacent ?G)\<^sup>*" and fv: "(f, v) \<in> (adjacent ?G)\<^sup>*"
      by auto
    have "sym ((adjacent ?G)\<^sup>*)" by (rule sym_rtrancl [OF adjacent_sym])
    then have "(u, f) \<in> (adjacent ?G)\<^sup>*" using fu by (rule symD)
    then show ?thesis using fv by (rule rtrancl_trans)
  qed
  then have "fully_connected ?G" by (simp add: fully_connected_def)
  with assms show False by contradiction
qed

lemma fully_connected_nonempty: "\<not> fully_connected G \<Longrightarrow> unodes G \<noteq> []"
  by (auto simp: fully_connected_def)

lemma carregar_loaded:
  assumes "fs ''rede_completa.graphml'' = Some gc" and "fs ''rede_visualizacao.graphml'' = Some gv"
    and "compute_centralities lib gc = Inr df"
  shows "carregar_e_processar_dados lib fs = Inr ([], Some gc, Some gv, Some df)"
  using assms by (simp add: carregar_e_processar_dados_def read_graphml_def)

lemma carregar_raises:
  assumes "fs ''rede_completa.graphml'' = Some gc" and "fs ''rede_visualizacao.graphml'' = Some gv"
    and "compute_centralities lib gc = Inl e"
  shows "carregar_e_processar_dados lib fs = Inl e"
  using assms by (simp add: carregar_e_processar_dados_def read_graphml_def)

lemma tab_metricas_disconnected:
  assumes "\<not> fully_connected (Graph_of g)"
  shows "tab_metricas lib g =
           ([Metric Total_Nodes (IntV (number_of_nodes g)),
             Metric Total_Edges (IntV (number_of_edges g)),
             Metric Density (FloatV (density g)),
             Metric Clustering (FloatV (average_clustering lib (Graph_of g))),
             Metric Assortativity (FloatV (degree_assortativity_coefficient lib (Graph_of g)))],
            Some NetworkXError)"
  by (simp add: tab_metricas_def Let_def diameter_disconnected [OF assms])

lemma compute_centralities_ambiguous:
  assumes "rejects_disconnected lib" and "\<not> fully_connected (Graph_of g)"
  shows "compute_centralities lib g = Inl AmbiguousSolution"
  using assms(1) not_fully_connected_not_is_connected [OF assms(2)]
    fully_connected_nonempty [OF assms(2)]
  by (simp add: compute_centralities_def Let_def eigenvector_centrality_numpy_def)

lemma app_loader_raises:
  assumes "fs ''rede_completa.graphml'' = Some gc" and "fs ''rede_visualizacao.graphml'' = Some gv"
    and "compute_centralities lib gc = Inl e"
  shows "app lib fs k p = ([], Some e)"
  by (simp add: app_def carregar_raises [OF assms])

lemma app_disconnected_loaded:
  assumes full: "fs ''rede_completa.graphml'' = Some gc"
    and view: "fs ''rede_visualizacao.graphml'' = Some gv"
    and cen: "compute_centralities lib gc = Inr df"
    and dis: "\<not> fully_connected (Graph_of gc)"
  shows "app lib fs k p =
           (if number_of_nodes gv = 0 then ([StWarning], None)
            else ([Metric Total_Nodes (IntV (number_of_nodes gc)),
                   Metric Total_Edges (IntV (number_of_edges gc)),
                   Metric Density (FloatV (density gc)),
                   Metric Clustering (FloatV (average_clustering lib (Graph_of gc))),
                   Metric Assortativity
                     (FloatV (degree_assortativity_coefficient lib (Graph_of gc)))],
                  Some NetworkXError))"
proof -
  have "unodes (Graph_of gc) \<noteq> []" by (rule fully_connected_nonempty [OF dis])
  then have gc: "number_of_nodes gc \<noteq> 0"
    by (simp add: unodes_Graph_of node_ids_def number_of_nodes_def)
  show ?thesis
    using gc
    by (simp add: app_def carregar_loaded [OF full view cen] truthy_def
        tab_metricas_disconnected [OF dis])
qed

text \<open>
  C2 (as the code has it). When the projection of the full graph is not fully connected,
  the diameter is never shown and its failure is not isolated. \<open>nx.diameter\<close> raises
  NetworkXError, which nothing catches. The run ends with an uncaught exception: the one
  eigenvector centrality raises inside the loader (AmbiguousSolution from NetworkX 3.4
  on, TypeError for at most two nodes, or an error of the solver), with nothing shown;
  or NetworkXError after the node count, edge count, density, clustering and
  assortativity were shown. When the view graph is empty, only the warning is shown. In
  no case are the diameter, the component counts, the rankings or the network produced.
\<close>

theorem disconnected_projection_ends_run:
  assumes full: "fs ''rede_completa.graphml'' = Some gc"
    and view: "fs ''rede_visualizacao.graphml'' = Some gv"
    and dis: "\<not> fully_connected (Graph_of gc)"
  shows "diameter (Graph_of gc) = Inl NetworkXError
         \<and> (rejects_disconnected lib \<longrightarrow> app lib fs k p = ([], Some AmbiguousSolution))
         \<and> (\<forall>e. compute_centralities lib gc = Inl e \<longrightarrow> app lib fs k p = ([], Some e))
         \<and> (\<forall>df. compute_centralities lib gc = Inr df \<longrightarrow>
               app lib fs k p =
                 (if number_of_nodes gv = 0 then ([StWarning], None)
                  else ([Metric Total_Nodes (IntV (number_of_nodes gc)),
                         Metric Total_Edges (IntV (number_of_edges gc)),
                         Metric Density (FloatV (density gc)),
                         Metric Clustering (FloatV (average_clustering lib (Graph_of gc))),
                         Metric Assortativity
                           (FloatV (degree_assortativity_coefficient lib (Graph_of gc)))],
                        Some NetworkXError)))
         \<and> set (metric_labels (fst (app lib fs k p)))
               \<subseteq> {Total_Nodes, Total_Edges, Density, Clustering, Assortativity}
         \<and> filter (\<lambda>ev. is_ranking ev \<or> is_render ev) (fst (app lib fs k p)) = []
         \<and> (snd (app lib fs k p) \<noteq> None \<or> fst (app lib fs k p) = [StWarning])"
proof -
  have a: "diameter (Graph_of gc) = Inl NetworkXError"
    by (rule diameter_disconnected [OF dis])
  have b: "app lib fs k p = ([], Some AmbiguousSolution)" if "rejects_disconnected lib"
    by (rule app_loader_raises [OF full view compute_centralities_ambiguous [OF that dis]])
  have c: "app lib fs k p = ([], Some e)" if "compute_centralities lib gc = Inl e" for e
    by (rule app_loader_raises [OF full view that])
  have d: "app lib fs k p =
                 (if number_of_nodes gv = 0 then ([StWarning], None)
                  else ([Metric Total_Nodes (IntV (number_of_nodes gc)),
                         Metric Total_Edges (IntV (number_of_edges gc)),
                         Metric Density (FloatV (density gc)),
                         Metric Clustering (FloatV (average_clustering lib (Graph_of gc))),
                         Metric Assortativity
                           (FloatV (degree_assortativity_coefficient lib (Graph_of gc)))],
                        Some NetworkXError))"
    if "compute_centralities lib gc = Inr df" for df
    by (rule app_disconnected_loaded [OF full view that dis])
  have e: "set (metric_labels (fst (app lib fs k p)))
               \<subseteq> {Total_Nodes, Total_Edges, Density, Clustering, Assortativity}
         \<and> filter (\<lambda>ev. is_ranking ev \<or> is_render ev) (fst (app lib fs k p)) = []
         \<and> (snd (app lib fs k p) \<noteq> None \<or> fst (app lib fs k p) = [StWarning])"
  proof (cases "compute_centralities lib gc")
    case (Inl err)
    show ?thesis
      unfolding c [OF Inl] by (simp add: metric_labels_def)
  next
    case (Inr df)
    show ?thesis
      unfolding d [OF Inr]
      by (simp add: metric_labels_def is_ranking_def is_render_def)
  qed
  from a b c d e show ?thesis by blast
qed

lemma isolated_unreachable:
  assumes "v \<notin> Range (adjacent G)" and "u \<noteq> v"
  shows "(u, v) \<notin> (adjacent G)\<^sup>*"
  using assms by (auto elim: rtranclE)

lemma split_graph_not_connected: "\<not> fully_connected (Graph_of split_graph)"
proof -
  have "''D'' \<notin> Range (adjacent (Graph_of split_graph))"
    by (auto simp: adjacent_def neighbors_Graph_of split_graph_def)
  then have "(''A'', ''D'') \<notin> (adjacent (Graph_of split_graph))\<^sup>*"
    by (rule isolated_unreachable) simp
  then show ?thesis
    by (auto simp: fully_connected_def unodes_Graph_of node_ids_def split_graph_def)
qed

lemma split_graph_centralities:
  "compute_centralities (nx_on_split False) split_graph =
     Inr [\<lparr>Jogador = ''A'', Degree = 1 / 3, Closeness = 4 / 9, Betweenness = 0, Eigenvector = 1 / 2\<rparr>,
          \<lparr>Jogador = ''B'', Degree = 2 / 3, Closeness = 2 / 3, Betweenness = 1 / 3,
             Eigenvector = sqrt 2 / 2\<rparr>,
          \<lparr>Jogador = ''C'', Degree = 1 / 3, Closeness = 4 / 9, Betweenness = 0, Eigenvector = 1 / 2\<rparr>,
          \<lparr>Jogador = ''D'', Degree = 0, Closeness = 0, Betweenness = 0, Eigenvector = 0\<rparr>]"
  by (simp add: compute_centralities_def Graph_of_def split_graph_def node_ids_def
      nx_on_split_def eigenvector_centrality_numpy_def DataFrame_def degree_centrality_def
      degree_def neighbors_def add_edge_def Let_def)

lemma split_files:
  "files_of (Some split_graph) (Some split_graph) ''rede_completa.graphml'' = Some split_graph"
  "files_of (Some split_graph) (Some split_graph) ''rede_visualizacao.graphml'' = Some split_graph"
  by (simp_all add: files_of_def)

lemma split_graph_numbers:
  "number_of_nodes split_graph = 4" "number_of_edges split_graph = 2"
  "density split_graph = 1 / 6"
  by (simp_all add: number_of_nodes_def number_of_edges_def density_def nx_density_def
      split_graph_def)

text \<open>
  C2 as stated fails on the path A, B, C with a fourth player D who never played. With
  NetworkX 3.4 or later the loader raises AmbiguousSolution and no metric is shown; with
  an earlier NetworkX the run ends with the uncaught NetworkXError after five metrics.
  The component counts are shown in neither.
\<close>

theorem disconnected_projection_counterexample:
  "\<not> fully_connected (Graph_of split_graph)
   \<and> app (nx_on_split True) (files_of (Some split_graph) (Some split_graph)) 10 True
       = ([], Some AmbiguousSolution)
   \<and> app (nx_on_split False) (files_of (Some split_graph) (Some split_graph)) 10 True
       = ([Metric Total_Nodes (IntV 4), Metric Total_Edges (IntV 2),
           Metric Density (FloatV (1 / 6)), Metric Clustering (FloatV 0),
           Metric Assortativity (FloatV (- 1))],
          Some NetworkXError)"
proof -
  have r: "rejects_disconnected (nx_on_split True)"
    by (simp add: nx_on_split_def)
  have a: "app (nx_on_split True) (files_of (Some split_graph) (Some split_graph)) 10 True
             = ([], Some AmbiguousSolution)"
    by (rule app_loader_raises [OF split_files
          compute_centralities_ambiguous [OF r split_graph_not_connected]])
  have b: "app (nx_on_split False) (files_of (Some split_graph) (Some split_graph)) 10 True
       = ([Metric Total_Nodes (IntV 4), Metric Total_Edges (IntV 2),
           Metric Density (FloatV (1 / 6)), Metric Clustering (FloatV 0),
           Metric Assortativity (FloatV (- 1))],
          Some NetworkXError)"
    using app_disconnected_loaded [OF split_files split_graph_centralities
        split_graph_not_connected, of 10 True]
    by (simp add: split_graph_numbers) (simp add: nx_on_split_def)
  from split_graph_not_connected a b show ?thesis by simp
qed

theorem disconnected_projection_ends_run_witness:
  "files_of (Some split_graph) (Some split_graph) ''rede_completa.graphml'' = Some split_graph
   \<and> files_of (Some split_graph) (Some split_graph) ''rede_visualizacao.graphml''
       = Some split_graph
   \<and> \<not> fully_connected (Graph_of split_graph)
   \<and> rejects_disconnected (nx_on_split True)
   \<and> diameter (Graph_of split_graph) = Inl NetworkXError
   \<and> app (nx_on_split True) (files_of (Some split_graph) (Some split_graph)) 10 True
       = ([], Some AmbiguousSolution)
   \<and> snd (app (nx_on_split False) (files_of (Some split_graph) (Some split_graph)) 10 True)
       = Some NetworkXError
   \<and> metric_labels
       (fst (app (nx_on_split False) (files_of (Some split_graph) (Some split_graph)) 10 True))
       = [Total_Nodes, Total_Edges, Density, Clustering, Assortativity]"
proof -
  have r: "rejects_disconnected (nx_on_split True)"
    by (simp add: nx_on_split_def)
  have n: "number_of_nodes split_graph \<noteq> 0"
    by (simp add: split_graph_numbers)
  note new = disconnected_projection_ends_run [OF split_files split_graph_not_connected,
      of "nx_on_split True" 10 True]
  note old = disconnected_projection_ends_run [OF split_files split_graph_not_connected,
      of "nx_on_split False" 10 True]
  have a: "app (nx_on_split True) (files_of (Some split_graph) (Some split_graph)) 10 True
             = ([], Some AmbiguousSolution)"
    using new r by blast
  have d: "diameter (Graph_of split_graph) = Inl NetworkXError"
    using new by blast
  have b: "app (nx_on_split False) (files_of (Some split_graph) (Some split_graph)) 10 True
             = ([Metric Total_Nodes (IntV (number_of_nodes split_graph)),
                 Metric Total_Edges (IntV (number_of_edges split_graph)),
                 Metric Density (FloatV (density split_graph)),
                 Metric Clustering
                   (FloatV (average_clustering (nx_on_split False) (Graph_of split_graph))),
                 Metric Assortativity
                   (FloatV (degree_assortativity_coefficient (nx_on_split False)
                      (Graph_of split_graph)))],
                Some NetworkXError)"
    using old split_graph_centralities n by simp
  show ?thesis
    unfolding a b using split_files split_graph_not_connected r d
    by (simp add: metric_labels_def)
qed

subsection \<open>Loading\<close>

text \<open>
  C4. When either GraphML file is missing, the loader shows an error and returns
  \<open>(None, None, None)\<close>: no graph handle. The page then shows only the warning: no
  metric, no ranking and no network.
\<close>

theorem missing_file_aborts:
  assumes "fs ''rede_completa.graphml'' = None \<or> fs ''rede_visualizacao.graphml'' = None"
  shows "carregar_e_processar_dados lib fs = Inr ([StError FileNotFoundError], None, None, None)
         \<and> app lib fs k p = ([StError FileNotFoundError, StWarning], None)
         \<and> filter (\<lambda>ev. is_metric ev \<or> is_ranking ev \<or> is_render ev) (fst (app lib fs k p)) = []"
proof -
  have load: "carregar_e_processar_dados lib fs
                = Inr ([StError FileNotFoundError], None, None, None)"
  proof (cases "fs ''rede_completa.graphml''")
    case None
    then show ?thesis
      by (simp add: carregar_e_processar_dados_def read_graphml_def)
  next
    case (Some gc)
    with assms have "fs ''rede_visualizacao.graphml'' = None" by simp
    with Some show ?thesis
      by (simp add: carregar_e_processar_dados_def read_graphml_def)
  qed
  have run: "app lib fs k p = ([StError FileNotFoundError, StWarning], None)"
    by (simp add: app_def load truthy_def)
  show ?thesis
    unfolding run using load by (simp add: is_metric_def is_ranking_def is_render_def)
qed

theorem missing_file_aborts_witness:
  "files_of (Some path_graph) None ''rede_visualizacao.graphml'' = None
   \<and> carregar_e_processar_dados nx_on_path (files_of (Some path_graph) None)
       = Inr ([StError FileNotFoundError], None, None, None)
   \<and> app nx_on_path (files_of (Some path_graph) None) 10 True
       = ([StError FileNotFoundError, StWarning], None)"
proof -
  have h: "files_of (Some path_graph) None ''rede_visualizacao.graphml'' = None"
    by (simp add: files_of_def)
  then have "files_of (Some path_graph) None ''rede_completa.graphml'' = None
             \<or> files_of (Some path_graph) None ''rede_visualizacao.graphml'' = None"
    by (rule disjI2)
  from missing_file_aborts [OF this, of nx_on_path 10 True] h show ?thesis
    by simp
qed

lemma path_graph_is_connected: "is_connected (Graph_of path_graph)"
  by code_simp

lemma path_graph_degree_centrality:
  "degree_centrality (Graph_of path_graph) = [(''A'', 1 / 2), (''B'', 1), (''C'', 1 / 2)]"
  by (simp add: degree_centrality_def Graph_of_def path_graph_def node_ids_def add_edge_def
      degree_def neighbors_def Let_def)

lemma path_graph_eigenvector:
  "eigenvector_centrality_numpy nx_on_path (Graph_of path_graph)
     = Inr [(''A'', 1 / 2), (''B'', sqrt 2 / 2), (''C'', 1 / 2)]"
  using path_graph_is_connected
  by (simp add: eigenvector_centrality_numpy_def unodes_Graph_of nx_on_path_def node_ids_def
      path_graph_def)

lemma path_graph_centralities: "compute_centralities nx_on_path path_graph = Inr path_table"
  by (simp add: compute_centralities_def Let_def path_graph_eigenvector
      path_graph_degree_centrality unodes_Graph_of DataFrame_def path_table_def)
     (simp add: nx_on_path_def node_ids_def path_graph_def)

lemma path_files:
  "files_of (Some path_graph) (Some path_graph) ''rede_completa.graphml'' = Some path_graph"
  "files_of (Some path_graph) (Some path_graph) ''rede_visualizacao.graphml'' = Some path_graph"
  by (simp_all add: files_of_def)

lemma compute_centralities_null:
  assumes "number_of_nodes gc = 0"
  shows "compute_centralities lib gc = Inl NetworkXPointlessConcept"
  using assms
  by (simp add: compute_centralities_def Let_def eigenvector_centrality_numpy_def
      unodes_Graph_of node_ids_def number_of_nodes_def)

text \<open>
  C10 (as the code has it). With both files read: when the view graph has no node and
  the centralities of the full graph were computed, the page takes the warning branch,
  because a graph handle is tested for truth and its truth value is its node count. A
  full graph without a node never reaches that test: eigenvector centrality raises
  NetworkXPointlessConcept inside the loader, which nothing catches, and the run ends
  with it, without the warning.
\<close>

theorem empty_graph_branches:
  assumes full: "fs ''rede_completa.graphml'' = Some gc"
    and view: "fs ''rede_visualizacao.graphml'' = Some gv"
  shows "(number_of_nodes gv = 0 \<and> compute_centralities lib gc = Inr df
            \<longrightarrow> app lib fs k p = ([StWarning], None))
         \<and> (number_of_nodes gc = 0
            \<longrightarrow> carregar_e_processar_dados lib fs = Inl NetworkXPointlessConcept
                \<and> app lib fs k p = ([], Some NetworkXPointlessConcept))"
proof -
  have a: "app lib fs k p = ([StWarning], None)"
    if "number_of_nodes gv = 0" and cen: "compute_centralities lib gc = Inr df"
    using that(1) by (simp add: app_def carregar_loaded [OF full view cen] truthy_def)
  have b: "carregar_e_processar_dados lib fs = Inl NetworkXPointlessConcept"
    if "number_of_nodes gc = 0"
    by (rule carregar_raises [OF full view compute_centralities_null [OF that]])
  have c: "app lib fs k p = ([], Some NetworkXPointlessConcept)"
    if "number_of_nodes gc = 0"
    by (rule app_loader_raises [OF full view compute_centralities_null [OF that]])
  from a b c show ?thesis by blast
qed

lemma empty_graph_no_nodes: "number_of_nodes empty_graph = 0"
  by (simp add: number_of_nodes_def empty_graph_def)

theorem empty_graph_branches_witness:
  "number_of_nodes empty_graph = 0
   \<and> compute_centralities nx_on_path path_graph = Inr path_table
   \<and> app nx_on_path (files_of (Some path_graph) (Some empty_graph)) 10 True = ([StWarning], None)
   \<and> app nx_on_path (files_of (Some empty_graph) (Some path_graph)) 10 True
       = ([], Some NetworkXPointlessConcept)"
proof -
  have f1: "files_of (Some path_graph) (Some empty_graph) ''rede_completa.graphml''
              = Some path_graph"
    and f2: "files_of (Some path_graph) (Some empty_graph) ''rede_visualizacao.graphml''
              = Some empty_graph"
    and f3: "files_of (Some empty_graph) (Some path_graph) ''rede_completa.graphml''
              = Some empty_graph"
    and f4: "files_of (Some empty_graph) (Some path_graph) ''rede_visualizacao.graphml''
              = Some path_graph"
    by (simp_all add: files_of_def)
  have a: "app nx_on_path (files_of (Some path_graph) (Some empty_graph)) 10 True
             = ([StWarning], None)"
    using empty_graph_branches [OF f1 f2, of nx_on_path path_table 10 True]
      empty_graph_no_nodes path_graph_centralities
    by blast
  have b: "app nx_on_path (files_of (Some empty_graph) (Some path_graph)) 10 True
             = ([], Some NetworkXPointlessConcept)"
    using empty_graph_branches [OF f3 f4, of nx_on_path path_table 10 True]
      empty_graph_no_nodes
    by blast
  from empty_graph_no_nodes path_graph_centralities a b show ?thesis by blast
qed

text \<open>
  C10 as stated fails on a full graph without a node: the run ends with the uncaught
  NetworkXPointlessConcept and shows no warning.
\<close>

theorem empty_full_graph_counterexample:
  "number_of_nodes empty_graph = 0
   \<and> app nx_on_path (files_of (Some empty_graph) (Some path_graph)) 10 True
       = ([], Some NetworkXPointlessConcept)"
proof -
  have f3: "files_of (Some empty_graph) (Some path_graph) ''rede_completa.graphml''
              = Some empty_graph"
    and f4: "files_of (Some empty_graph) (Some path_graph) ''rede_visualizacao.graphml''
              = Some path_graph"
    by (simp_all add: files_of_def)
  have "app nx_on_path (files_of (Some empty_graph) (Some path_graph)) 10 True
          = ([], Some NetworkXPointlessConcept)"
    by (rule app_loader_raises [OF f3 f4 compute_centralities_null [OF empty_graph_no_nodes]])
  with empty_graph_no_nodes show ?thesis by simp
qed

lemma carregar_returns:
  assumes "carregar_e_processar_dados lib fs = Inr (shown, Some gc, Gv, Some df)"
  shows "fs ''rede_completa.graphml'' = Some gc \<and> compute_centralities lib gc = Inr df"
proof (cases "fs ''rede_completa.graphml''")
  case None
  with assms show ?thesis
    by (simp add: carregar_e_processar_dados_def read_graphml_def)
next
  case full: (Some g)
  show ?thesis
  proof (cases "fs ''rede_visualizacao.graphml''")
    case None
    with full assms show ?thesis
      by (simp add: carregar_e_processar_dados_def read_graphml_def)
  next
    case view: (Some v)
    show ?thesis
    proof (cases "compute_centralities lib g")
      case (Inl e)
      with full view assms show ?thesis
        by (simp add: carregar_e_processar_dados_def read_graphml_def)
    next
      case (Inr t)
      with full view assms show ?thesis
        by (simp add: carregar_e_processar_dados_def read_graphml_def)
    qed
  qed
qed

lemma DataFrame_Jogador:
  assumes "DataFrame js ds cs bs es = Inr df"
  shows "map Jogador df = js"
proof -
  have lens: "length ds = length js" "length cs = length js" "length bs = length js"
    "length es = length js"
    using assms by (simp_all add: DataFrame_def split: if_splits)
  have df: "df = map (\<lambda>(j, d, c, b, e).
                  \<lparr>Jogador = j, Degree = d, Closeness = c, Betweenness = b, Eigenvector = e\<rparr>)
                (zip js (zip ds (zip cs (zip bs es))))"
    using assms lens by (simp add: DataFrame_def)
  have "map Jogador df = map fst (zip js (zip ds (zip cs (zip bs es))))"
    unfolding df by (simp add: case_prod_beta)
  also have "\<dots> = js"
    by (rule map_fst_zip) (simp add: lens)
  finally show ?thesis .
qed

lemma compute_centralities_Jogador:
  assumes "compute_centralities lib gc = Inr df"
  shows "map Jogador df = node_ids gc"
proof (cases "eigenvector_centrality_numpy lib (Graph_of gc)")
  case (Inl e)
  with assms show ?thesis
    by (simp add: compute_centralities_def Let_def)
next
  case (Inr eig)
  with assms have "DataFrame (unodes (Graph_of gc)) (map snd (degree_centrality (Graph_of gc)))
       (map (closeness_centrality lib (Graph_of gc)) (unodes (Graph_of gc)))
       (map (betweenness_centrality lib (Graph_of gc)) (unodes (Graph_of gc)))
       (map snd eig) = Inr df"
    by (simp add: compute_centralities_def Let_def)
  then have "map Jogador df = unodes (Graph_of gc)"
    by (rule DataFrame_Jogador)
  then show ?thesis by (simp add: unodes_Graph_of)
qed

text \<open>
  C5. Whenever the loader returns a full graph and its centrality table, the table has
  one row per node of the graph: as many rows as nodes, the node column is the node list
  of the graph, and no node occurs in two rows.
\<close>

theorem centrality_table_one_row_per_node:
  assumes load: "carregar_e_processar_dados lib fs = Inr (shown, Some gc, Gv, Some df)"
    and wf: "wf_dgraph gc"
  shows "length df = number_of_nodes gc
         \<and> map Jogador df = node_ids gc
         \<and> set (map Jogador df) = set (node_ids gc)
         \<and> distinct (map Jogador df)"
proof -
  from carregar_returns [OF load] have "compute_centralities lib gc = Inr df" by simp
  then have j: "map Jogador df = node_ids gc"
    by (rule compute_centralities_Jogador)
  have "length df = length (map Jogador df)" by simp
  also have "\<dots> = number_of_nodes gc"
    unfolding j by (simp add: node_ids_def number_of_nodes_def)
  finally have l: "length df = number_of_nodes gc" .
  have d: "distinct (node_ids gc)"
    using wf by (simp add: wf_dgraph_def)
  show ?thesis
    unfolding j using l d by simp
qed

lemma path_graph_loads:
  "carregar_e_processar_dados nx_on_path (files_of (Some path_graph) (Some path_graph))
     = Inr ([], Some path_graph, Some path_graph, Some path_table)"
  by (rule carregar_loaded [OF path_files path_graph_centralities])

lemma path_graph_wf: "wf_dgraph path_graph"
  by (simp add: wf_dgraph_def path_graph_def node_ids_def)

theorem centrality_table_one_row_per_node_witness:
  "carregar_e_processar_dados nx_on_path (files_of (Some path_graph) (Some path_graph))
     = Inr ([], Some path_graph, Some path_graph, Some path_table)
   \<and> wf_dgraph path_graph
   \<and> length path_table = 3
   \<and> map Jogador path_table = [''A'', ''B'', ''C'']
   \<and> distinct (map Jogador path_table)"
proof -
  have n: "number_of_nodes path_graph = 3" "node_ids path_graph = [''A'', ''B'', ''C'']"
    by (simp_all add: number_of_nodes_def node_ids_def path_graph_def)
  from centrality_table_one_row_per_node [OF path_graph_loads path_graph_wf]
  show ?thesis
    unfolding n using path_graph_loads path_graph_wf by simp
qed

subsection \<open>Rankings\<close>















subsection \<open>The styled network\<close>















lemma half_le_sqrt2: "1 / 2 \<le> sqrt 2 / 2"
  by simp














end
